theory Spec2Isabelle
  imports Complex_Main "HOL-Library.AList" "HOL-Library.Sublist"
begin

section \<open>Data model\<close>

text \<open>
  A Python \<^verbatim>\<open>str\<close> is the list of its Unicode code points; \<^verbatim>\<open>str\<close> turns an ASCII literal
  of the source into one. The storage file holds JSON, and every server entry is a Python
  \<^verbatim>\<open>dict\<close> read from it or built by \<^verbatim>\<open>ping_server\<close>. A JSON value is modelled as it arrives
  from \<^verbatim>\<open>json.load\<close>: \<^verbatim>\<open>None\<close>, a bool, an int, a float, a str, a list or a dict with string
  keys. A dict is an association list in insertion order. Floats are modelled by the
  rational they denote (rounding, infinities and NaN are outside the model).
\<close>

type_synonym pystr = "nat list"

definition str :: "string \<Rightarrow> pystr" where
  "str s = map of_char s"

datatype jval =
    JNull
  | JBool bool
  | JInt int
  | JFloat rat
  | JStr pystr
  | JArr "jval list"
  | JObj "(pystr \<times> jval) list"

type_synonym pydict = "(pystr \<times> jval) list"

text \<open>The exceptions the modelled code can meet, by Python class.\<close>

datatype exn =
    TypeError
  | AttributeError
  | KeyError pystr
  | ValueError pystr
  | OverflowError
  | UnicodeDecodeError
  | RecursionError
  | StatusError pystr

text \<open>
  What \<^verbatim>\<open>JavaServer(host, port).status()\<close> hands back when it succeeds: the five values
  \<^verbatim>\<open>ping_server\<close> reads off it.
\<close>

record status_reply =
  version_name :: pystr
  players_online :: int
  players_max :: int
  description :: pystr
  latency :: rat

text \<open>
  What \<^verbatim>\<open>json.load\<close> does with the contents of a file: it returns the parsed value, raises
  \<^verbatim>\<open>JSONDecodeError\<close> on text that is not JSON, or raises something else
  (\<^verbatim>\<open>UnicodeDecodeError\<close> on bytes that are not UTF-8, \<^verbatim>\<open>RecursionError\<close> on too deep a
  nesting, \<^verbatim>\<open>ValueError\<close> on an integer beyond the interpreter's digit limit).
\<close>

datatype parsed = Parsed jval | Decode_error | Raises exn

text \<open>
  The outside world and the interpreter. \<^verbatim>\<open>time.time()\<close> and the status query of the
  \<^verbatim>\<open>mcstatus\<close> library are oracles indexed by the number of interactions made so far, so
  that their answers may change from one call to the next, in any direction. A failed
  query is \<^verbatim>\<open>Inl\<close> of the text of the exception it raised. \<^verbatim>\<open>json.dump\<close> and \<^verbatim>\<open>json.load\<close>
  belong to the Python library: they are parameters, over an arbitrary type of file
  contents. \<^verbatim>\<open>exc_text\<close> is \<^verbatim>\<open>str(e)\<close> for the interpreter's own exceptions. Of the Unicode
  database, only the part beyond ASCII is a parameter: \<^verbatim>\<open>uni_alnum\<close> is \<^verbatim>\<open>str.isalnum\<close> and
  \<^verbatim>\<open>uni_decimal\<close> the decimal digit value of a code point from 128 on.
  \<^verbatim>\<open>int_max_str_digits\<close> is the interpreter's limit on the digits \<^verbatim>\<open>int\<close> converts: 0 where
  it has none, 4300 by default since Python 3.11.
\<close>

record 'f env =
  clock :: "nat \<Rightarrow> rat"
  status_query :: "nat \<Rightarrow> pystr \<Rightarrow> int \<Rightarrow> pystr + status_reply"
  exc_text :: "exn \<Rightarrow> pystr"
  json_dump :: "jval \<Rightarrow> 'f"
  json_load :: "'f \<Rightarrow> parsed"
  uni_alnum :: "nat \<Rightarrow> bool"
  uni_decimal :: "nat \<Rightarrow> nat option"
  int_max_str_digits :: nat

text \<open>
  The state the program changes: the contents of \<^verbatim>\<open>servers.json\<close> (\<^verbatim>\<open>None\<close> while the file
  does not exist), the count of interactions with the outside world, and the log of the
  status queries sent.
\<close>

record 'f world =
  servers_file :: "'f option"
  tick :: nat
  probes :: "(pystr \<times> int) list"

definition time_time :: "'f env \<Rightarrow> 'f world \<Rightarrow> rat \<times> 'f world" where
  "time_time env w = (clock env (tick w), w\<lparr>tick := Suc (tick w)\<rparr>)"

definition server_status ::
  "'f env \<Rightarrow> pystr \<Rightarrow> int \<Rightarrow> 'f world \<Rightarrow> (pystr + status_reply) \<times> 'f world" where
  "server_status env host port w =
     (status_query env (tick w) host port,
      w\<lparr>tick := Suc (tick w), probes := probes w @ [(host, port)]\<rparr>)"

definition str_exc :: "'f env \<Rightarrow> exn \<Rightarrow> pystr" where
  "str_exc env e = (case e of StatusError m \<Rightarrow> m | _ \<Rightarrow> exc_text env e)"

section \<open>Storage\<close>

text \<open>
  \<^verbatim>\<open>load_servers\<close> (lines 17-24): the empty list when the file does not exist; otherwise what
  \<^verbatim>\<open>json.load\<close> returns, with the empty list in place of a \<^verbatim>\<open>JSONDecodeError\<close>, the only
  exception line 22 catches. Any other exception leaves the function.
  \<^verbatim>\<open>save_servers\<close> (lines 27-29) overwrites the file.
\<close>

definition load_servers :: "'f env \<Rightarrow> 'f world \<Rightarrow> exn + jval" where
  "load_servers env w =
     (case servers_file w of
        None \<Rightarrow> Inr (JArr [])
      | Some txt \<Rightarrow>
          (case json_load env txt of
             Parsed v \<Rightarrow> Inr v
           | Decode_error \<Rightarrow> Inr (JArr [])
           | Raises e \<Rightarrow> Inl e))"

definition save_servers :: "'f env \<Rightarrow> jval \<Rightarrow> 'f world \<Rightarrow> 'f world" where
  "save_servers env servers w = w\<lparr>servers_file := Some (json_dump env servers)\<rparr>"

section \<open>Strings\<close>

text \<open>
  The code points \<^verbatim>\<open>str.isspace\<close> accepts, all of Unicode included; the letters and digits
  of ASCII, and beyond ASCII what the Unicode database says. \<^verbatim>\<open>\w\<close> in a \<^verbatim>\<open>str\<close> pattern is
  \<^verbatim>\<open>str.isalnum\<close> or the underscore, \<^verbatim>\<open>\d\<close> is a decimal digit.
\<close>

definition is_space :: "nat \<Rightarrow> bool" where
  "is_space c \<longleftrightarrow>
     c \<in> set [0x09, 0x0A, 0x0B, 0x0C, 0x0D, 0x1C, 0x1D, 0x1E, 0x1F, 0x20, 0x85, 0xA0,
                0x1680, 0x2000, 0x2001, 0x2002, 0x2003, 0x2004, 0x2005, 0x2006, 0x2007,
                0x2008, 0x2009, 0x200A, 0x2028, 0x2029, 0x202F, 0x205F, 0x3000]"

definition decimal_value :: "'f env \<Rightarrow> nat \<Rightarrow> nat option" where
  "decimal_value env c =
     (if c < 128 then (if 48 \<le> c \<and> c \<le> 57 then Some (c - 48) else None)
      else uni_decimal env c)"

definition is_digit :: "'f env \<Rightarrow> nat \<Rightarrow> bool" where
  "is_digit env c \<longleftrightarrow> decimal_value env c \<noteq> None"

definition is_alnum :: "'f env \<Rightarrow> nat \<Rightarrow> bool" where
  "is_alnum env c \<longleftrightarrow>
     (if c < 128 then 48 \<le> c \<and> c \<le> 57 \<or> 65 \<le> c \<and> c \<le> 90 \<or> 97 \<le> c \<and> c \<le> 122
      else uni_alnum env c)"

definition is_word :: "'f env \<Rightarrow> nat \<Rightarrow> bool" where
  "is_word env c \<longleftrightarrow> is_alnum env c \<or> c = 95"

text \<open>\<^verbatim>\<open>str.strip()\<close>: leading and trailing whitespace removed.\<close>

definition strip :: "pystr \<Rightarrow> pystr" where
  "strip s = rev (dropWhile is_space (rev (dropWhile is_space s)))"

text \<open>
  \<^verbatim>\<open>re.match(r'^[\w\.\-]+(:\d+)?$', s)\<close>. The host characters exclude the colon (58) and
  the newline (10), so the greedy split is the only one; \<^verbatim>\<open>$\<close> matches at the end of the
  string and just before a newline that ends it.
\<close>

definition is_hostch :: "'f env \<Rightarrow> nat \<Rightarrow> bool" where
  "is_hostch env c \<longleftrightarrow> is_word env c \<or> c = 46 \<or> c = 45"

definition at_end :: "pystr \<Rightarrow> bool" where
  "at_end r \<longleftrightarrow> r = [] \<or> r = [10]"

definition address_matches :: "'f env \<Rightarrow> pystr \<Rightarrow> bool" where
  "address_matches env s \<longleftrightarrow>
     takeWhile (is_hostch env) s \<noteq> [] \<and>
     (let r = dropWhile (is_hostch env) s in
        at_end r \<or>
        (case r of
           [] \<Rightarrow> False
         | c # p \<Rightarrow>
             c = 58 \<and> takeWhile (is_digit env) p \<noteq> [] \<and> at_end (dropWhile (is_digit env) p)))"

text \<open>\<^verbatim>\<open>s.split(':', 1)\<close>: the parts around the first colon, or the string alone.\<close>

definition split_colon :: "pystr \<Rightarrow> pystr list" where
  "split_colon s =
     (if 58 \<in> set s
      then [takeWhile (\<lambda>c. c \<noteq> 58) s, tl (dropWhile (\<lambda>c. c \<noteq> 58) s)]
      else [s])"

text \<open>
  \<^verbatim>\<open>int(s)\<close> on a string. A string that is not all ASCII is first rewritten: from code
  point 127 on, whitespace becomes a space, a decimal digit its ASCII digit, anything else
  a question mark. Then come surrounding whitespace (the six characters of C only, fewer
  than \<^verbatim>\<open>str.strip\<close> removes), an optional sign, and decimal digits that single
  underscores may separate; more digits than the interpreter's limit are refused, and a
  limit below 640 counts as 640. \<^verbatim>\<open>None\<close> stands for \<^verbatim>\<open>ValueError\<close>.
\<close>

definition to_ascii :: "'f env \<Rightarrow> pystr \<Rightarrow> pystr" where
  "to_ascii env s =
     (if list_all (\<lambda>c. c < 128) s then s
      else map (\<lambda>c. if c < 127 then c
                     else if is_space c then 32
                     else (case decimal_value env c of Some d \<Rightarrow> 48 + d | None \<Rightarrow> 63)) s)"

definition is_c_space :: "nat \<Rightarrow> bool" where
  "is_c_space c \<longleftrightarrow> c \<in> set [0x09, 0x0A, 0x0B, 0x0C, 0x0D, 0x20]"

definition ascii_digit :: "nat \<Rightarrow> bool" where
  "ascii_digit c \<longleftrightarrow> 48 \<le> c \<and> c \<le> 57"

fun int_body :: "pystr \<Rightarrow> bool" where
  "int_body [] = False"
| "int_body [c] = ascii_digit c"
| "int_body (c # d # r) =
     (ascii_digit c \<and> (if d = 95 then int_body r else int_body (d # r)))"

definition digits_val :: "pystr \<Rightarrow> nat" where
  "digits_val s = foldl (\<lambda>n c. 10 * n + (c - 48)) 0 (filter ascii_digit s)"

definition digits_allowed :: "'f env \<Rightarrow> nat \<Rightarrow> bool" where
  "digits_allowed env n \<longleftrightarrow>
     int_max_str_digits env = 0 \<or> n \<le> max 640 (int_max_str_digits env)"

definition py_int :: "'f env \<Rightarrow> pystr \<Rightarrow> int option" where
  "py_int env s =
     (let t = rev (dropWhile is_c_space (rev (dropWhile is_c_space (to_ascii env s))));
          neg = (t \<noteq> [] \<and> hd t = 45);
          body = (if t \<noteq> [] \<and> (hd t = 45 \<or> hd t = 43) then tl t else t)
      in if int_body body \<and> digits_allowed env (length (filter ascii_digit body))
         then Some (if neg then - int (digits_val body) else int (digits_val body))
         else None)"

text \<open>\<^verbatim>\<open>str(n)\<close> of an int, as an f-string prints it.\<close>

function show_nat :: "nat \<Rightarrow> pystr" where
  "show_nat n = (if n < 10 then [48 + n] else show_nat (n div 10) @ [48 + n mod 10])"
  by pat_completeness auto
termination
  by (relation "measure id") auto

declare show_nat.simps [simp del]

definition show_int :: "int \<Rightarrow> pystr" where
  "show_int i = (if i < 0 then 45 # show_nat (nat (- i)) else show_nat (nat i))"

text \<open>
  \<^verbatim>\<open>format(x, '.2f')\<close> of a finite float: the exact value rounded to two decimals, ties to
  even, the sign kept.
\<close>

definition round_half_even :: "rat \<Rightarrow> int" where
  "round_half_even x =
     (let f = \<lfloor>x\<rfloor>; d = x - of_int f
      in if d < 1 / 2 then f else if 1 / 2 < d then f + 1 else if even f then f else f + 1)"

definition format_2f :: "rat \<Rightarrow> pystr" where
  "format_2f x =
     (let n = nat (round_half_even (\<bar>x\<bar> * 100))
      in (if x < 0 then [45] else []) @ show_nat (n div 100) @ [46] @
         [48 + n div 10 mod 10, 48 + n mod 10])"

section \<open>Prober\<close>

text \<open>
  The value \<^verbatim>\<open>ping_server\<close> returns is one of two dict literals (lines 43-52 and 54-59);
  \<^verbatim>\<open>probe\<close> is that value by shape, and \<^verbatim>\<open>result_dict\<close> the dict itself, keys in the order
  of the source.
\<close>

datatype probe =
    Online status_reply rat pystr
  | Offline pystr jval rat

definition result_dict :: "probe \<Rightarrow> pydict" where
  "result_dict p =
     (case p of
        Online r t a \<Rightarrow>
          [(str ''status'', JStr (str ''online'')),
           (str ''version'', JStr (version_name r)),
           (str ''players_online'', JInt (players_online r)),
           (str ''players_max'', JInt (players_max r)),
           (str ''description'', JStr (description r)),
           (str ''latency'', JFloat (latency r)),
           (str ''last_checked'', JFloat t),
           (str ''address'', JStr a)]
      | Offline m a t \<Rightarrow>
          [(str ''status'', JStr (str ''offline'')),
           (str ''error'', JStr m),
           (str ''address'', a),
           (str ''last_checked'', JFloat t)])"

text \<open>The \<^verbatim>\<open>except Exception as e\<close> handler (lines 53-59).\<close>

definition offline :: "'f env \<Rightarrow> exn \<Rightarrow> jval \<Rightarrow> 'f world \<Rightarrow> probe \<times> 'f world" where
  "offline env e address w =
     (let (t, w1) = time_time env w in (Offline (str_exc env e) address t, w1))"

text \<open>Lines 34-35 on a string: the default port appended where there is no colon.\<close>

definition normalized :: "pystr \<Rightarrow> pystr" where
  "normalized a = (if 58 \<in> set a then a else a @ str '':25565'')"

text \<open>
  \<^verbatim>\<open>ping_server\<close> (lines 32-59). The refresher passes whatever the stored entry holds under
  \<^verbatim>\<open>'address'\<close>, so the argument is any JSON value: on a list, \<^verbatim>\<open>+=\<close> extends it by the
  characters of \<^verbatim>\<open>':25565'\<close> before \<^verbatim>\<open>split\<close> fails; on the other non-strings the membership
  test, \<^verbatim>\<open>+=\<close> or \<^verbatim>\<open>split\<close> raises. Every exception of the \<^verbatim>\<open>try\<close> block ends in the handler,
  which sees the address as reassigned so far.
\<close>

definition ping_server :: "'f env \<Rightarrow> jval \<Rightarrow> 'f world \<Rightarrow> probe \<times> 'f world" where
  "ping_server env address w =
     (case address of
        JStr a \<Rightarrow>
          (let a1 = normalized a in
           case split_colon a1 of
             [host, port] \<Rightarrow>
               (case py_int env port of
                  None \<Rightarrow> offline env (ValueError port) (JStr a1) w
                | Some p \<Rightarrow>
                    (case server_status env host p w of
                       (Inl m, w1) \<Rightarrow> offline env (StatusError m) (JStr a1) w1
                     | (Inr r, w1) \<Rightarrow>
                         (let (t, w2) = time_time env w1 in (Online r t a1, w2))))
           | _ \<Rightarrow> offline env (ValueError a1) (JStr a1) w)
      | JArr xs \<Rightarrow>
          offline env AttributeError
            (JArr (if JStr (str '':'') \<in> set xs then xs
                   else xs @ map (\<lambda>c. JStr [c]) (str '':25565''))) w
      | JObj d \<Rightarrow>
          offline env (if str '':'' \<in> set (map fst d) then AttributeError else TypeError)
            address w
      | _ \<Rightarrow> offline env TypeError address w)"

section \<open>Background refresher\<close>

text \<open>
  The right operand of \<^verbatim>\<open>time.time() - x\<close>: a float, or an int or bool converted to one.
  An int beyond the range of a double raises \<^verbatim>\<open>OverflowError\<close>, anything else
  \<^verbatim>\<open>TypeError\<close>.
\<close>

definition py_num :: "jval \<Rightarrow> exn + rat" where
  "py_num v =
     (case v of
        JInt i \<Rightarrow> if \<bar>i\<bar> < 2 ^ 1024 - 2 ^ 970 then Inr (of_int i) else Inl OverflowError
      | JFloat r \<Rightarrow> Inr r
      | JBool b \<Rightarrow> Inr (if b then 1 else 0)
      | _ \<Rightarrow> Inl TypeError)"

definition dict_get :: "pydict \<Rightarrow> pystr \<Rightarrow> jval \<Rightarrow> jval" where
  "dict_get d k dflt = (case map_of d k of None \<Rightarrow> dflt | Some v \<Rightarrow> v)"

text \<open>\<^verbatim>\<open>d.update(s)\<close>: the items of \<^verbatim>\<open>s\<close> stored one after the other.\<close>

definition dict_update :: "pydict \<Rightarrow> pydict \<Rightarrow> pydict" where
  "dict_update d s = fold (\<lambda>(k, v). AList.update k v) s d"

text \<open>
  One turn of the \<^verbatim>\<open>for\<close> loop (lines 68-79) on \<^verbatim>\<open>server\<close>, with \<^verbatim>\<open>updated_servers\<close> as
  it stands. \<^verbatim>\<open>time.time()\<close> is read first, anew at every turn; then \<^verbatim>\<open>server.get\<close> needs a
  dict, the subtraction a number, and \<^verbatim>\<open>server['address']\<close> the key.
\<close>

definition checker_body ::
  "'f env \<Rightarrow> jval \<Rightarrow> jval list \<Rightarrow> 'f world \<Rightarrow> (exn + jval list) \<times> 'f world" where
  "checker_body env server updated w =
     (let (now, w1) = time_time env w in
      case server of
        JObj d \<Rightarrow>
          (case py_num (dict_get d (str ''added_time'') (JInt 0)) of
             Inl e \<Rightarrow> (Inl e, w1)
           | Inr added \<Rightarrow>
               if now - added > 300 then
                 (case map_of d (str ''address'') of
                    None \<Rightarrow> (Inl (KeyError (str ''address'')), w1)
                  | Some a \<Rightarrow>
                      (let (status, w2) = ping_server env a w1 in
                       if map_of (result_dict status) (str ''status'') = Some (JStr (str ''online''))
                       then (Inr (updated @ [JObj (dict_update d (result_dict status))]), w2)
                       else (Inr updated, w2)))
               else (Inr (updated @ [server]), w1))
      | _ \<Rightarrow> (Inl AttributeError, w1))"

fun check_loop ::
  "'f env \<Rightarrow> jval list \<Rightarrow> jval list \<Rightarrow> 'f world \<Rightarrow> (exn + jval list) \<times> 'f world" where
  "check_loop env [] updated w = (Inr updated, w)"
| "check_loop env (server # rest) updated w =
     (case checker_body env server updated w of
        (Inl e, w1) \<Rightarrow> (Inl e, w1)
      | (Inr updated1, w1) \<Rightarrow> check_loop env rest updated1 w1)"

text \<open>
  \<^verbatim>\<open>for x in v\<close>: the elements of a list, the keys of a dict, the characters of a string;
  \<^verbatim>\<open>TypeError\<close> on anything else.
\<close>

definition py_iter :: "jval \<Rightarrow> exn + jval list" where
  "py_iter v =
     (case v of
        JArr xs \<Rightarrow> Inr xs
      | JObj d \<Rightarrow> Inr (map (\<lambda>(k, _). JStr k) d)
      | JStr s \<Rightarrow> Inr (map (\<lambda>c. JStr [c]) s)
      | _ \<Rightarrow> Inl TypeError)"

text \<open>
  One refresh cycle: the body of \<^verbatim>\<open>while True\<close> (lines 64-84) up to the sleep. An exception
  anywhere, in \<^verbatim>\<open>load_servers\<close> too, ends the cycle before \<^verbatim>\<open>save_servers\<close>, and is only
  logged.
\<close>

datatype cycle = Cycle_saved "jval list" | Cycle_failed exn

definition server_checker_cycle :: "'f env \<Rightarrow> 'f world \<Rightarrow> cycle \<times> 'f world" where
  "server_checker_cycle env w =
     (case load_servers env w of
        Inl e \<Rightarrow> (Cycle_failed e, w)
      | Inr v \<Rightarrow>
          (case py_iter v of
             Inl e \<Rightarrow> (Cycle_failed e, w)
           | Inr servers \<Rightarrow>
               (case check_loop env servers [] w of
                  (Inl e, w1) \<Rightarrow> (Cycle_failed e, w1)
                | (Inr updated, w1) \<Rightarrow>
                    (Cycle_saved updated, save_servers env (JArr updated) w1))))"

text \<open>
  \<^verbatim>\<open>server_checker\<close> (lines 62-87) runs cycles for ever, sleeping in between; \<^verbatim>\<open>n\<close> bounds
  the number of cycles observed. The sleep is one more interaction with the world.
\<close>

fun server_checker :: "'f env \<Rightarrow> nat \<Rightarrow> 'f world \<Rightarrow> 'f world" where
  "server_checker env 0 w = w"
| "server_checker env (Suc n) w =
     (let w1 = snd (server_checker_cycle env w)
      in server_checker env n (w1\<lparr>tick := Suc (tick w1)\<rparr>))"

section \<open>Add endpoint\<close>

text \<open>
  The literal text of the source, code point by code point where it is not printable
  ASCII: the parts of the f-string of lines 151-162 between its fields, and the messages
  of lines 131, 135 and 168.
\<close>

definition html_part0 :: pystr where
  "html_part0 =
     [0xA] @
     str ''        <div class='' @
     [0x22] @
     str ''server-stats'' @
     [0x22] @
     str '' style='' @
     [0x22] @
     str ''margin-top: 20px; padding: 15px; background: #f8f8f8; border-radius: 5px;'' @
     [0x22] @
     str ''>'' @
     [0xA] @
     str ''            <h3>'' @
     [0x421, 0x442, 0x430, 0x442, 0x443, 0x441] @
     str '' '' @
     [0x441, 0x435, 0x440, 0x432, 0x435, 0x440, 0x430] @
     str ''</h3>'' @
     [0xA] @
     str ''            <p><strong>'' @
     [0x410, 0x434, 0x440, 0x435, 0x441] @
     str '':</strong> ''"

definition html_part1 :: pystr where
  "html_part1 =
     str ''</p>'' @
     [0xA] @
     str ''            <p><strong>'' @
     [0x421, 0x442, 0x430, 0x442, 0x443, 0x441] @
     str '':</strong> <span style='' @
     [0x22] @
     str ''color: green; font-weight: bold;'' @
     [0x22] @
     str ''>'' @
     [0x41E, 0x43D, 0x43B, 0x430, 0x439, 0x43D] @
     str '' '' @
     [0x2713] @
     str ''</span></p>'' @
     [0xA] @
     str ''            <p><strong>'' @
     [0x412, 0x435, 0x440, 0x441, 0x438, 0x44F] @
     str '':</strong> ''"

definition html_part2 :: pystr where
  "html_part2 =
     str ''</p>'' @
     [0xA] @
     str ''            <p><strong>'' @
     [0x418, 0x433, 0x440, 0x43E, 0x43A, 0x438] @
     str '':</strong> ''"

definition html_part3 :: pystr where
  "html_part3 =
     str ''/''"

definition html_part4 :: pystr where
  "html_part4 =
     str ''</p>'' @
     [0xA] @
     str ''            <p><strong>'' @
     [0x417, 0x430, 0x434, 0x435, 0x440, 0x436, 0x43A, 0x430] @
     str '':</strong> ''"

definition html_part5 :: pystr where
  "html_part5 =
     str '' ms</p>'' @
     [0xA] @
     str ''            <p><strong>'' @
     [0x41E, 0x43F, 0x438, 0x441, 0x430, 0x43D, 0x438, 0x435] @
     str '':</strong> ''"

definition html_part6 :: pystr where
  "html_part6 =
     str ''</p>'' @
     [0xA] @
     str ''            <p style='' @
     [0x22] @
     str ''color: green; font-weight: bold;'' @
     [0x22] @
     str ''>'' @
     [0x421, 0x435, 0x440, 0x432, 0x435, 0x440] @
     str '' '' @
     [0x434, 0x43E, 0x431, 0x430, 0x432, 0x43B, 0x435, 0x43D] @
     str '' '' @
     [0x432] @
     str '' '' @
     [0x43C, 0x43E, 0x43D, 0x438, 0x442, 0x43E, 0x440, 0x438, 0x43D, 0x433] @
     str ''!</p>'' @
     [0xA] @
     str ''        </div>'' @
     [0xA] @
     str ''        ''"

definition msg_no_address :: pystr where
  "msg_no_address =
     [0x41D, 0x435] @
     str '' '' @
     [0x432, 0x432, 0x435, 0x434, 0x435, 0x43D, 0x43E] @
     str '' '' @
     [0x43D, 0x430, 0x437, 0x432, 0x430, 0x43D, 0x438, 0x435] @
     str '' '' @
     [0x441, 0x435, 0x440, 0x432, 0x435, 0x440, 0x430]"

definition msg_bad_format :: pystr where
  "msg_bad_format =
     [0x41D, 0x435, 0x432, 0x435, 0x440, 0x43D, 0x44B, 0x439] @
     str '' '' @
     [0x444, 0x43E, 0x440, 0x43C, 0x430, 0x442] @
     str '' '' @
     [0x430, 0x434, 0x440, 0x435, 0x441, 0x430]"

definition err_prefix :: pystr where
  "err_prefix =
     str ''<div class='' @
     [0x22] @
     str ''error'' @
     [0x22] @
     str '' style='' @
     [0x22] @
     str ''color:red; margin-top:20px;'' @
     [0x22] @
     str ''>'' @
     [0x421, 0x435, 0x440, 0x432, 0x435, 0x440] @
     str '' '' @
     [0x43D, 0x435] @
     str '' '' @
     [0x43E, 0x442, 0x432, 0x435, 0x447, 0x430, 0x435, 0x442] @
     str '': ''"

definition err_suffix :: pystr where
  "err_suffix =
     str ''</div>''"

text \<open>
  The f-string of lines 151-162, its literal parts above in order and the formatted
  fields in between.
\<close>

definition html_response :: "pystr \<Rightarrow> status_reply \<Rightarrow> pystr" where
  "html_response address r =
     html_part0 @ address @
     html_part1 @ version_name r @
     html_part2 @ show_int (players_online r) @
     html_part3 @ show_int (players_max r) @
     html_part4 @ format_2f (latency r) @
     html_part5 @ description r @
     html_part6"

text \<open>
  What the endpoint answers: \<^verbatim>\<open>jsonify({key: text})\<close> with its status code, or the
  exception that left the handler (the framework's 500).
\<close>

datatype response = Json pystr pystr nat | Unhandled exn

text \<open>
  \<^verbatim>\<open>any(s['address'] == a for s in servers)\<close> (line 145): it stops at the first match;
  before that, an element without the key raises \<^verbatim>\<open>KeyError\<close> and one that is not a dict
  \<^verbatim>\<open>TypeError\<close>. The right-hand side is a string, so only an equal string compares equal.
\<close>

fun any_address :: "jval list \<Rightarrow> pystr \<Rightarrow> exn + bool" where
  "any_address [] a = Inr False"
| "any_address (JObj d # rest) a =
     (case map_of d (str ''address'') of
        None \<Rightarrow> Inl (KeyError (str ''address''))
      | Some v \<Rightarrow> if v = JStr a then Inr True else any_address rest a)"
| "any_address (_ # rest) a = Inl TypeError"

text \<open>
  \<^verbatim>\<open>request.form.get('address', '')\<close>: the \<^verbatim>\<open>address\<close> field of the submitted form, when it
  has one.
\<close>

definition form_address :: "pystr option \<Rightarrow> pystr" where
  "form_address form = (case form of None \<Rightarrow> [] | Some s \<Rightarrow> s)"

text \<open>
  \<^verbatim>\<open>add_server\<close> (lines 128-169). An exception of \<^verbatim>\<open>load_servers\<close> leaves the handler;
  \<^verbatim>\<open>servers.append\<close> needs a list.
\<close>

definition add_server :: "'f env \<Rightarrow> pystr option \<Rightarrow> 'f world \<Rightarrow> response \<times> 'f world" where
  "add_server env form w =
     (let address = strip (form_address form) in
      if address = [] then (Json (str ''error'') msg_no_address 400, w)
      else if \<not> address_matches env address then (Json (str ''error'') msg_bad_format 400, w)
      else
        (case ping_server env (JStr address) w of
           (Online r t a, w1) \<Rightarrow>
             (case load_servers env w1 of
                Inl e \<Rightarrow> (Unhandled e, w1)
              | Inr servers \<Rightarrow>
                  (case py_iter servers of
                     Inl e \<Rightarrow> (Unhandled e, w1)
                   | Inr items \<Rightarrow>
                       (case any_address items a of
                          Inl e \<Rightarrow> (Unhandled e, w1)
                        | Inr True \<Rightarrow> (Json (str ''html'') (html_response address r) 200, w1)
                        | Inr False \<Rightarrow>
                            (let (t1, w2) = time_time env w1;
                                 server_info =
                                   AList.update (str ''added_time'') (JFloat t1)
                                     (result_dict (Online r t a))
                             in case servers of
                                  JArr xs \<Rightarrow>
                                    (Json (str ''html'') (html_response address r) 200,
                                     save_servers env (JArr (xs @ [JObj server_info])) w2)
                                | _ \<Rightarrow> (Unhandled AttributeError, w2)))))
         | (Offline m a t, w1) \<Rightarrow>
             (Json (str ''error'') (err_prefix @ m @ err_suffix) 200, w1)))"

section \<open>Histories\<close>

text \<open>
  The request handlers and the refresher thread both read and rewrite the storage file.
  A history is a sequence of their steps, taken one after the other: a POST to
  \<^verbatim>\<open>/add-server\<close> with its form field, or one turn of the refresher's \<^verbatim>\<open>while\<close> loop.
  (Steps that overlap in time are outside the model.)
\<close>

datatype event = Add_request "pystr option" | Refresh

fun run :: "'f env \<Rightarrow> event list \<Rightarrow> 'f world \<Rightarrow> 'f world" where
  "run env [] w = w"
| "run env (Add_request form # evs) w = run env evs (snd (add_server env form w))"
| "run env (Refresh # evs) w = run env evs (server_checker env (Suc 0) w)"

section \<open>Notions the properties are stated with\<close>

text \<open>
  A stored entry the refresher can process: a dict with an \<^verbatim>\<open>address\<close> and an
  \<^verbatim>\<open>added_time\<close> that is a number within the range of a float, or absent. \<^verbatim>\<open>add_server\<close>
  stores no other kind.
\<close>

definition has_address :: "jval \<Rightarrow> bool" where
  "has_address s = (case s of JObj d \<Rightarrow> map_of d (str ''address'') \<noteq> None | _ \<Rightarrow> False)"





text \<open>The stored entries held under a given address, and how many the file holds.\<close>

definition addressed :: "pystr \<Rightarrow> jval \<Rightarrow> bool" where
  "addressed a s =
     (case s of JObj d \<Rightarrow> map_of d (str ''address'') = Some (JStr a) | _ \<Rightarrow> False)"

definition entries_with :: "pystr \<Rightarrow> jval list \<Rightarrow> jval list" where
  "entries_with a xs = filter (addressed a) xs"

definition stored_count :: "'f env \<Rightarrow> 'f world \<Rightarrow> pystr \<Rightarrow> nat" where
  "stored_count env w a =
     (case load_servers env w of Inr (JArr xs) \<Rightarrow> length (entries_with a xs) | _ \<Rightarrow> 0)"



section \<open>A concrete world\<close>

text \<open>
  One server answers, \<^verbatim>\<open>mc.example.com\<close> on the default port; every other query times
  out. The clock starts at 1700000000 and moves one second with every interaction. A
  file holds the text of a JSON value, which \<^verbatim>\<open>json.load\<close> parses back, or text that is not
  JSON, or bytes that are not UTF-8. Beyond ASCII, the Cyrillic letters from U+0410 to
  U+044F are alphanumeric and the Arabic-Indic digits from U+0660 to U+0669 are decimal.
\<close>

datatype demo_file = Text jval | Not_json | Not_utf8

definition demo_reply :: status_reply where
  "demo_reply =
     \<lparr>version_name = str ''1.20.4'', players_online = 5, players_max = 20,
      description = str ''A Minecraft Server'', latency = 25 / 2\<rparr>"

definition demo_env :: "demo_file env" where
  "demo_env =
     \<lparr>clock = (\<lambda>n. 1700000000 + of_nat n),
      status_query =
        (\<lambda>n host port. if host = str ''mc.example.com'' \<and> port = 25565
                        then Inr demo_reply else Inl (str ''timed out'')),
      exc_text = (\<lambda>e. str ''error''),
      json_dump = Text,
      json_load =
        (\<lambda>f. case f of Text v \<Rightarrow> Parsed v | Not_json \<Rightarrow> Decode_error
                        | Not_utf8 \<Rightarrow> Raises UnicodeDecodeError),
      uni_alnum = (\<lambda>c. 0x410 \<le> c \<and> c \<le> 0x44F \<or> 0x660 \<le> c \<and> c \<le> 0x669),
      uni_decimal = (\<lambda>c. if 0x660 \<le> c \<and> c \<le> 0x669 then Some (c - 0x660) else None),
      int_max_str_digits = 4300\<rparr>"


definition empty_world :: "demo_file world" where
  "empty_world = \<lparr>servers_file = None, tick = 0, probes = []\<rparr>"







section \<open>Facts about strings\<close>

lemma str_eq_iff [simp]: "str a = str b \<longleftrightarrow> a = b"
  by (simp add: str_def inj_map_eq_map [OF inj_of_char])

lemma str_append: "str (a @ b) = str a @ str b"
  by (simp add: str_def)

lemma colon_str: "str '':'' = [58]" and default_port_str: "str '':25565'' = 58 # str ''25565''"
  by (simp_all add: str_def)

lemma no_colon_in_port: "58 \<notin> set (str ''25565'')"
  by (simp add: str_def)

section \<open>Facts about the prober\<close>

lemma time_time_simps [simp]:
  "fst (time_time env w) = clock env (tick w)"
  "snd (time_time env w) = w\<lparr>tick := Suc (tick w)\<rparr>"
  by (simp_all add: time_time_def)

lemma offline_eq:
  "offline env e a w = (Offline (str_exc env e) a (clock env (tick w)), w\<lparr>tick := Suc (tick w)\<rparr>)"
  by (simp add: offline_def time_time_def)

lemma ping_server_file [simp]: "servers_file (snd (ping_server env a w)) = servers_file w"
  by (auto simp: ping_server_def offline_eq server_status_def time_time_def Let_def
      split: jval.splits list.splits option.splits prod.splits sum.splits)



lemma ping_server_stamp:
  "ping_server env a w = (p, w1) \<Longrightarrow>
   map_of (result_dict p) (str ''last_checked'') = Some (JFloat (clock env (tick w1 - 1)))"
  by (auto simp: ping_server_def offline_eq server_status_def time_time_def Let_def result_dict_def
      split: jval.splits list.splits option.splits prod.splits sum.splits)

lemma ping_server_address:
  "ping_server env (JStr a) w = (p, w1) \<Longrightarrow>
   map_of (result_dict p) (str ''address'') = Some (JStr (normalized a))"
  by (auto simp: ping_server_def offline_eq server_status_def time_time_def Let_def result_dict_def
      split: list.splits option.splits prod.splits sum.splits)

text \<open>Only a string is ever probed online, and then under its normalized address.\<close>

lemma ping_online_string:
  "ping_server env a w = (Online r t b, w1) \<Longrightarrow> \<exists>x. a = JStr x \<and> b = normalized x"
  by (auto simp: ping_server_def offline_eq time_time_def Let_def
      split: jval.splits list.splits option.splits prod.splits sum.splits if_splits)

lemma ping_online_address:
  "ping_server env (JStr a) w = (Online r t b, w1) \<Longrightarrow> b = normalized a"
  using ping_online_string [of env "JStr a" w r t b w1] by simp





section \<open>Facts about the refresher\<close>



















section \<open>Facts about the add endpoint\<close>

lemma load_servers_cong:
  "servers_file w' = servers_file w \<Longrightarrow> load_servers env w' = load_servers env w"
  by (simp add: load_servers_def)

lemma any_address_wf:
  "\<forall>x \<in> set xs. has_address x \<Longrightarrow> any_address xs a = Inr (entries_with a xs \<noteq> [])"
proof (induction xs)
  case Nil
  show ?case by (simp add: entries_with_def)
next
  case (Cons x xs)
  from Cons.prems obtain d v where x: "x = JObj d" and v: "map_of d (str ''address'') = Some v"
    by (auto simp: has_address_def split: jval.splits)
  from Cons have IH: "any_address xs a = Inr (entries_with a xs \<noteq> [])" by simp
  show ?case
    by (simp add: x v IH entries_with_def addressed_def)
qed


lemma add_server_offline:
  assumes "strip (form_address form) = s" and "s \<noteq> []" and "address_matches env s"
    and "ping_server env (JStr s) w = (Offline m b t, w1)"
  shows "add_server env form w = (Json (str ''error'') (err_prefix @ m @ err_suffix) 200, w1)"
  using assms by (simp add: add_server_def)

lemma add_server_online:
  assumes s: "strip (form_address form) = s" "s \<noteq> []" "address_matches env s"
    and ping: "ping_server env (JStr s) w = (Online r t a, w1)"
    and load: "load_servers env w = Inr (JArr xs)"
    and wf: "\<forall>x \<in> set xs. has_address x"
  shows "add_server env form w =
     (Json (str ''html'') (html_response s r) 200,
      if entries_with a xs \<noteq> [] then w1
      else save_servers env
             (JArr (xs @ [JObj (AList.update (str ''added_time'') (JFloat (clock env (tick w1)))
                                  (result_dict (Online r t a)))]))
             (w1\<lparr>tick := Suc (tick w1)\<rparr>))"
proof -
  have "load_servers env w1 = Inr (JArr xs)"
    using load load_servers_cong [of w1 w env] ping_server_file [of env "JStr s" w]
    by (simp add: ping)
  then show ?thesis
    using s ping any_address_wf [OF wf, of a]
    by (simp add: add_server_def py_iter_def time_time_def)
qed


lemma new_entry_addressed:
  "entries_with a [JObj (AList.update (str ''added_time'') v (result_dict (Online r t a)))] =
     [JObj (AList.update (str ''added_time'') v (result_dict (Online r t a)))]"
  by (simp add: entries_with_def addressed_def result_dict_def update_conv')

lemma new_entry_has_address:
  "has_address (JObj (AList.update (str ''added_time'') v (result_dict (Online r t a))))"
  by (simp add: has_address_def result_dict_def update_conv')



section \<open>Facts about histories\<close>





section \<open>The concrete world, evaluated\<close>


lemmas eval_defs =
  ping_server_def normalized_def split_colon_def py_int_def to_ascii_def is_c_space_def
  ascii_digit_def digits_val_def digits_allowed_def server_status_def time_time_def offline_eq
  str_exc_def checker_body_def dict_get_def py_num_def result_dict_def dict_update_def
  load_servers_def save_servers_def py_iter_def server_checker_cycle_def Let_def str_def

lemmas form_defs =
  form_address_def strip_def is_space_def address_matches_def is_hostch_def is_word_def
  is_alnum_def is_digit_def decimal_value_def at_end_def str_def

lemma demo_codec: "\<forall>v. json_load demo_env (json_dump demo_env v) = Parsed v"
  by (simp add: demo_env_def)

lemma bad_address:
  "strip (str ''!!bad'') = str ''!!bad'' \<and> \<not> address_matches demo_env (str ''!!bad'')"
  by (simp add: form_defs)

lemma good_address:
  "strip (str ''mc.example.com'') = str ''mc.example.com'' \<and>
   address_matches demo_env (str ''mc.example.com'')"
  by (simp add: form_defs)

lemma good_form:
  "strip (form_address (Some (str ''mc.example.com''))) = str ''mc.example.com''"
  by (simp add: form_address_def good_address)

lemma down_address:
  "strip (form_address (Some (str ''down.example.com''))) = str ''down.example.com'' \<and>
   address_matches demo_env (str ''down.example.com'')"
  by (simp add: form_defs)

text \<open>
  A Cyrillic host name between two no-break spaces is trimmed and passes validation, and
  a port written in Arabic-Indic digits is read as the number it spells.
\<close>

lemma cyrillic_address:
  "strip ([0xA0] @ [0x441, 0x435, 0x440, 0x432, 0x435, 0x440, 0x2E, 0x440, 0x444] @ [0xA0]) =
     [0x441, 0x435, 0x440, 0x432, 0x435, 0x440, 0x2E, 0x440, 0x444] \<and>
   address_matches demo_env [0x441, 0x435, 0x440, 0x432, 0x435, 0x440, 0x2E, 0x440, 0x444] \<and>
   py_int demo_env [0x662, 0x665, 0x665, 0x666, 0x665] = Some 25565"
  by (simp add: form_defs py_int_def to_ascii_def is_c_space_def ascii_digit_def digits_val_def
      digits_allowed_def demo_env_def Let_def)

lemma ping_down:
  "ping_server demo_env (JStr (str ''down.example.com'')) w =
     (Offline (str ''timed out'') (JStr (str ''down.example.com:25565''))
        (1700000001 + of_nat (tick w)),
      w\<lparr>tick := Suc (Suc (tick w)), probes := probes w @ [(str ''down.example.com'', 25565)]\<rparr>)"
  by (simp add: demo_env_def eval_defs)

lemma ping_up:
  "ping_server demo_env (JStr (str ''mc.example.com'')) w =
     (Online demo_reply (1700000001 + of_nat (tick w)) (str ''mc.example.com:25565''),
      w\<lparr>tick := Suc (Suc (tick w)), probes := probes w @ [(str ''mc.example.com'', 25565)]\<rparr>)"
  by (simp add: demo_env_def eval_defs)

lemma add_down:
  "add_server demo_env (Some (str ''down.example.com'')) w =
     (Json (str ''error'') (err_prefix @ str ''timed out'' @ err_suffix) 200,
      w\<lparr>tick := Suc (Suc (tick w)), probes := probes w @ [(str ''down.example.com'', 25565)]\<rparr>)"
  using down_address by (intro add_server_offline [OF _ _ _ ping_down]) (simp_all add: str_def)

section \<open>The refresher keeps what is online or new\<close>



section \<open>The age gate\<close>




section \<open>Pruning\<close>








section \<open>A refreshed entry keeps its insertion time\<close>



section \<open>The prober returns a result\<close>

text \<open>
  Claim C5. For every address string, \<^verbatim>\<open>ping_server\<close> returns a result dict, online with
  version, player counts, latency, description and timestamp, or offline with an error
  message and timestamp, and raises nothing.

  Every exception of the \<^verbatim>\<open>try\<close> block is a branch of \<^verbatim>\<open>ping_server\<close> that ends in the
  handler, so the function has a value on every string: a dict with the keys of one of
  the two literals and the matching \<^verbatim>\<open>status\<close>, whose \<^verbatim>\<open>last_checked\<close> is the last clock
  reading made and whose \<^verbatim>\<open>address\<close> is the string with the default port appended when it
  had no colon.
\<close>

theorem ping_server_returns_result:
  "\<exists>p w1. ping_server env (JStr a) w = (p, w1) \<and>
     (map fst (result_dict p) =
        [str ''status'', str ''version'', str ''players_online'', str ''players_max'',
         str ''description'', str ''latency'', str ''last_checked'', str ''address''] \<and>
      map_of (result_dict p) (str ''status'') = Some (JStr (str ''online''))
      \<or>
      map fst (result_dict p) =
        [str ''status'', str ''error'', str ''address'', str ''last_checked''] \<and>
      map_of (result_dict p) (str ''status'') = Some (JStr (str ''offline''))) \<and>
     map_of (result_dict p) (str ''last_checked'') = Some (JFloat (clock env (tick w1 - 1))) \<and>
     map_of (result_dict p) (str ''address'') =
       Some (JStr (if 58 \<in> set a then a else a @ str '':25565''))"
proof -
  obtain p w1 where run: "ping_server env (JStr a) w = (p, w1)"
    by (cases "ping_server env (JStr a) w")
  have shape:
    "map fst (result_dict p) =
        [str ''status'', str ''version'', str ''players_online'', str ''players_max'',
         str ''description'', str ''latency'', str ''last_checked'', str ''address''] \<and>
      map_of (result_dict p) (str ''status'') = Some (JStr (str ''online''))
      \<or>
      map fst (result_dict p) =
        [str ''status'', str ''error'', str ''address'', str ''last_checked''] \<and>
      map_of (result_dict p) (str ''status'') = Some (JStr (str ''offline''))"
    by (cases p) (simp_all add: result_dict_def)
  from shape ping_server_stamp [OF run] ping_server_address [OF run] show ?thesis
    by (simp add: run normalized_def)
qed

text \<open>An address whose server does not answer.\<close>

theorem ping_server_returns_result_witness:
  "\<exists>p w1. ping_server demo_env (JStr (str ''down.example.com'')) empty_world = (p, w1) \<and>
     (map fst (result_dict p) =
        [str ''status'', str ''version'', str ''players_online'', str ''players_max'',
         str ''description'', str ''latency'', str ''last_checked'', str ''address''] \<and>
      map_of (result_dict p) (str ''status'') = Some (JStr (str ''online''))
      \<or>
      map fst (result_dict p) =
        [str ''status'', str ''error'', str ''address'', str ''last_checked''] \<and>
      map_of (result_dict p) (str ''status'') = Some (JStr (str ''offline''))) \<and>
     map_of (result_dict p) (str ''last_checked'') = Some (JFloat (clock demo_env (tick w1 - 1))) \<and>
     map_of (result_dict p) (str ''address'') = Some (JStr (str ''down.example.com:25565''))"
proof -
  have "(if 58 \<in> set (str ''down.example.com'') then str ''down.example.com''
         else str ''down.example.com'' @ str '':25565'') = str ''down.example.com:25565''"
    by (simp add: str_def)
  with ping_server_returns_result [of demo_env "str ''down.example.com''" empty_world]
  show ?thesis
    by simp
qed

section \<open>Validation errors\<close>

text \<open>
  Claim C6. A POST to \<^verbatim>\<open>/add-server\<close> whose trimmed address is empty or does not match the
  pattern gets a validation error; no probe is made and the stored list is unchanged.

  Trimming is \<^verbatim>\<open>str.strip\<close> and matching is \<^verbatim>\<open>re.match\<close> on a \<^verbatim>\<open>str\<close>, both over all of
  Unicode. The answer is one of the two error messages with status 400, and the world is
  the one the request found: the same file, no status query logged, no clock reading.
\<close>

theorem add_server_rejects_invalid:
  assumes "strip (form_address form) = [] \<or> \<not> address_matches env (strip (form_address form))"
  shows "(fst (add_server env form w) = Json (str ''error'') msg_no_address 400 \<or>
          fst (add_server env form w) = Json (str ''error'') msg_bad_format 400) \<and>
         snd (add_server env form w) = w"
  using assms by (auto simp: add_server_def Let_def)

text \<open>The address \<^verbatim>\<open>!!bad\<close>.\<close>

theorem add_server_rejects_invalid_witness:
  "(fst (add_server demo_env (Some (str ''!!bad'')) empty_world) =
      Json (str ''error'') msg_no_address 400 \<or>
    fst (add_server demo_env (Some (str ''!!bad'')) empty_world) =
      Json (str ''error'') msg_bad_format 400) \<and>
   snd (add_server demo_env (Some (str ''!!bad'')) empty_world) = empty_world"
proof -
  have "strip (form_address (Some (str ''!!bad''))) = [] \<or>
      \<not> address_matches demo_env (strip (form_address (Some (str ''!!bad''))))"
    by (simp add: form_address_def bad_address)
  from add_server_rejects_invalid [OF this] show ?thesis .
qed

section \<open>Loading\<close>




section \<open>Adding a server\<close>



text \<open>
  Claim C2, amended. For every stored list of entries with addresses, and every submitted
  address that passes validation and whose probe reports the server online at the first
  add: the second add with the same address leaves the storage file as the first add left
  it, whatever its own probe reports; the list then is the old list, or the old list
  followed by one new entry, and it holds the normalized address once if the old list did
  not hold it, and as often as the old list otherwise. (The second add reads the file the
  first one wrote, so \<^verbatim>\<open>json.load\<close> is taken to read back what \<^verbatim>\<open>json.dump\<close> writes.)
\<close>

theorem repeated_add_stores_once:
  assumes codec: "\<forall>v. json_load env (json_dump env v) = Parsed v"
    and load: "load_servers env w = Inr (JArr xs)"
    and wf: "\<forall>x \<in> set xs. has_address x"
    and valid: "strip (form_address form) \<noteq> []"
      "address_matches env (strip (form_address form))"
    and online: "fst (ping_server env (JStr (strip (form_address form))) w) = Online r t a"
    and first: "add_server env form w = (resp1, w1)"
    and second: "add_server env form w1 = (resp2, w2)"
  shows "servers_file w2 = servers_file w1 \<and>
         (\<exists>ys. load_servers env w2 = Inr (JArr ys) \<and> (ys = xs \<or> (\<exists>e. ys = xs @ [e])) \<and>
            length (entries_with a ys) =
              (if entries_with a xs = [] then 1 else length (entries_with a xs)))"
proof -
  define s where "s = strip (form_address form)"
  have s: "strip (form_address form) = s" "s \<noteq> []" "address_matches env s"
    using valid by (simp_all add: s_def)
  obtain wa where ping1: "ping_server env (JStr s) w = (Online r t a, wa)"
    using online by (cases "ping_server env (JStr s) w") (simp add: s_def)
  define e where "e = JObj (AList.update (str ''added_time'') (JFloat (clock env (tick wa)))
                                  (result_dict (Online r t a)))"
  define ys where "ys = (if entries_with a xs \<noteq> [] then xs else xs @ [e])"
  have w1: "w1 = (if entries_with a xs \<noteq> [] then wa
                  else save_servers env (JArr (xs @ [e])) (wa\<lparr>tick := Suc (tick wa)\<rparr>))"
    using first add_server_online [OF s ping1 load wf] by (auto simp: e_def)
  have "servers_file wa = servers_file w"
    using ping_server_file [of env "JStr s" w] by (simp add: ping1)
  then have "load_servers env wa = Inr (JArr xs)"
    using load load_servers_cong [of wa w env] by simp
  then have load1: "load_servers env w1 = Inr (JArr ys)"
    using codec by (simp add: w1 ys_def load_servers_def save_servers_def)
  have wf1: "\<forall>x \<in> set ys. has_address x"
    using wf new_entry_has_address [of "JFloat (clock env (tick wa))" r t a]
    by (simp add: ys_def e_def)
  have present: "entries_with a ys \<noteq> []"
    using new_entry_addressed [of a "JFloat (clock env (tick wa))" r t]
    by (simp add: ys_def e_def entries_with_def)
  have count: "length (entries_with a ys) =
      (if entries_with a xs = [] then 1 else length (entries_with a xs))"
    using new_entry_addressed [of a "JFloat (clock env (tick wa))" r t]
    by (simp add: ys_def e_def entries_with_def)
  obtain p wb where ping2: "ping_server env (JStr s) w1 = (p, wb)"
    by (cases "ping_server env (JStr s) w1")
  have fileb: "servers_file wb = servers_file w1"
    using ping_server_file [of env "JStr s" w1] by (simp add: ping2)
  have "w2 = wb"
  proof (cases p)
    case (Offline m b t')
    with second add_server_offline [OF s, of w1 m b t' wb] ping2 show ?thesis by simp
  next
    case (Online r' t' a')
    with ping2 have ping2': "ping_server env (JStr s) w1 = (Online r' t' a', wb)" by simp
    from ping_online_address [OF ping1] ping_online_address [OF ping2'] have "a' = a" by simp
    with second add_server_online [OF s ping2' load1 wf1] present show ?thesis by simp
  qed
  with fileb have saved: "servers_file w2 = servers_file w1" by simp
  then have "load_servers env w2 = Inr (JArr ys)"
    using load1 load_servers_cong [of w2 w1 env] by simp
  moreover have "ys = xs \<or> (\<exists>e. ys = xs @ [e])"
    by (simp add: ys_def)
  ultimately show ?thesis
    using saved count by blast
qed

text \<open>
  As first stated the claim covers every submitted address. An address whose server does
  not answer is stored by neither add: the list holds no entry with it, not one.
\<close>

theorem offline_address_never_stored:
  "stored_count demo_env
     (snd (add_server demo_env (Some (str ''down.example.com''))
        (snd (add_server demo_env (Some (str ''down.example.com'')) empty_world))))
     (str ''down.example.com:25565'') = 0"
  by (simp add: add_down stored_count_def load_servers_def empty_world_def entries_with_def)

text \<open>Submitting \<^verbatim>\<open>mc.example.com\<close> twice to a world without a file.\<close>

theorem repeated_add_stores_once_witness:
  "servers_file (snd (add_server demo_env (Some (str ''mc.example.com''))
       (snd (add_server demo_env (Some (str ''mc.example.com'')) empty_world)))) =
   servers_file (snd (add_server demo_env (Some (str ''mc.example.com'')) empty_world)) \<and>
   stored_count demo_env
     (snd (add_server demo_env (Some (str ''mc.example.com''))
        (snd (add_server demo_env (Some (str ''mc.example.com'')) empty_world))))
     (str ''mc.example.com:25565'') = 1"
proof -
  let ?form = "Some (str ''mc.example.com'')"
  let ?one = "add_server demo_env ?form empty_world"
  let ?two = "add_server demo_env ?form (snd ?one)"
  have load: "load_servers demo_env empty_world = Inr (JArr [])"
    by (simp add: load_servers_def empty_world_def)
  have wf: "\<forall>x \<in> set []. has_address x"
    by simp
  have valid: "strip (form_address ?form) \<noteq> []"
    "address_matches demo_env (strip (form_address ?form))"
    by (simp_all add: good_form good_address) (simp add: str_def)
  have online: "fst (ping_server demo_env (JStr (strip (form_address ?form))) empty_world) =
      Online demo_reply 1700000001 (str ''mc.example.com:25565'')"
    by (simp add: good_form ping_up empty_world_def)
  have first: "?one = (fst ?one, snd ?one)" and second: "?two = (fst ?two, snd ?two)"
    by simp_all
  have none: "entries_with (str ''mc.example.com:25565'') [] = []"
    by (simp add: entries_with_def)
  from repeated_add_stores_once [OF demo_codec load wf valid online first second]
  obtain ys where same: "servers_file (snd ?two) = servers_file (snd ?one)"
    and stored: "load_servers demo_env (snd ?two) = Inr (JArr ys)"
    and once: "length (entries_with (str ''mc.example.com:25565'') ys) = 1"
    unfolding none by auto
  from stored once have "stored_count demo_env (snd ?two) (str ''mc.example.com:25565'') = 1"
    by (simp add: stored_count_def)
  with same show ?thesis by simp
qed

end
